theory Spec2Isabelle
  imports Complex_Main "HOL-Library.Multiset" "HOL-Library.Log_Nat"
begin

section \<open>JavaScript numbers\<close>

text \<open>
  The scores of the client code are JavaScript numbers: IEEE 754 double-precision values.
  A finite number is the rational it denotes; the three other values appear as results of
  a division by zero or of an overflow. A quotient and a product are rounded to the
  nearest double, a tie going to the even significand, as the hardware does. Sums of
  scores are taken as they are: they are exact in doubles for integer scores below
  \<open>2^53\<close>. Negative zero is not told from zero.
\<close>

datatype jsnum = Fin rat | PosInf | NegInf | NaN

text \<open>The nearest integer, a tie going to the even one.\<close>

definition round_half_even :: "rat \<Rightarrow> int" where
  "round_half_even r =
     (let f = \<lfloor>r\<rfloor>; d = r - of_int f
      in if d < 1 / 2 then f else if 1 / 2 < d then f + 1 else if even f then f else f + 1)"

text \<open>For a positive \<open>x\<close>, the exponent \<open>e\<close> with \<open>2^e \<le> x < 2^(e+1)\<close>.\<close>

definition floor_log2 :: "rat \<Rightarrow> int" where
  "floor_log2 x = (if 1 \<le> x then bitlen \<lfloor>x\<rfloor> - 1 else - bitlen (\<lceil>1 / x\<rceil> - 1))"

text \<open>
  The double nearest to a rational: 53 bits of significand, exponents from -1022 (below
  it the subnormal numbers, spaced \<open>2^-1074\<close>) to 1023 (above it the infinities).
\<close>

definition to_double :: "rat \<Rightarrow> jsnum" where
  "to_double x =
     (if x = 0 then Fin 0
      else
        let e = max (floor_log2 \<bar>x\<bar>) (- 1022);
            ulp = power_int 2 (e - 52);
            m = round_half_even (x / ulp)
        in if 1023 < e \<or> (e = 1023 \<and> 2 ^ 53 \<le> \<bar>m\<bar>)
           then (if 0 < x then PosInf else NegInf)
           else Fin (of_int m * ulp))"

text \<open>\<^verbatim>\<open>a / b\<close> on two finite numbers.\<close>

definition js_div :: "rat \<Rightarrow> rat \<Rightarrow> jsnum" where
  "js_div a b =
     (if b = 0 then (if a = 0 then NaN else if 0 < a then PosInf else NegInf)
      else to_double (a / b))"

text \<open>\<^verbatim>\<open>x * k\<close> for a finite \<open>k\<close>.\<close>

fun js_mul :: "jsnum \<Rightarrow> rat \<Rightarrow> jsnum" where
  "js_mul (Fin x) k = to_double (x * k)"
| "js_mul NaN k = NaN"
| "js_mul PosInf k = (if k = 0 then NaN else if 0 < k then PosInf else NegInf)"
| "js_mul NegInf k = (if k = 0 then NaN else if 0 < k then NegInf else PosInf)"

text \<open>\<^verbatim>\<open>Math.round\<close>: the nearest integer, a half rounded up; the identity on the
  values that are not finite.\<close>

fun Math_round :: "jsnum \<Rightarrow> jsnum" where
  "Math_round (Fin x) = Fin (of_int \<lfloor>x + 1 / 2\<rfloor>)"
| "Math_round v = v"

text \<open>\<^verbatim>\<open>x >= k\<close> for a finite \<open>k\<close>: false on \<open>NaN\<close>.\<close>

fun js_ge :: "jsnum \<Rightarrow> rat \<Rightarrow> bool" where
  "js_ge (Fin x) k = (k \<le> x)"
| "js_ge PosInf k = True"
| "js_ge NegInf k = False"
| "js_ge NaN k = False"

text \<open>\<^verbatim>\<open>x || 0\<close> on a number, and on a number that may be \<open>null\<close>.\<close>

definition or_zero :: "rat \<Rightarrow> rat" where
  "or_zero x = (if x = 0 then 0 else x)"

definition or_zero_null :: "rat option \<Rightarrow> rat" where
  "or_zero_null v = (case v of None \<Rightarrow> 0 | Some x \<Rightarrow> or_zero x)"

section \<open>Scoring: percentage and letter grade\<close>

text \<open>\<^verbatim>\<open>getGrade\<close> of the results list: the letter and its colour class.\<close>

definition getGrade :: "jsnum \<Rightarrow> string \<times> string" where
  "getGrade pct =
     (if js_ge pct 90 then (''A'', ''text-success'')
      else if js_ge pct 80 then (''B'', ''text-success'')
      else if js_ge pct 70 then (''C'', ''text-warning'')
      else if js_ge pct 60 then (''D'', ''text-warning'')
      else (''F'', ''text-destructive''))"

text \<open>\<^verbatim>\<open>Math.round((total_score / max_score) * 100)\<close>, as the results list, the
  report-card table and the submission page compute a row's percentage.\<close>

definition row_percentage :: "rat \<Rightarrow> rat \<Rightarrow> jsnum" where
  "row_percentage score mx = Math_round (js_mul (js_div score mx) 100)"

text \<open>\<^verbatim>\<open>getResultGrade\<close> of the report card: the percentage is not rounded before
  it is compared.\<close>

definition getResultGrade :: "rat \<Rightarrow> rat \<Rightarrow> string" where
  "getResultGrade score mx =
     (let pct = js_mul (js_div score mx) 100 in
      if js_ge pct 90 then ''A''
      else if js_ge pct 80 then ''B''
      else if js_ge pct 70 then ''C''
      else if js_ge pct 60 then ''D''
      else ''F'')"

text \<open>The pass mark of the results list: \<^verbatim>\<open>pct >= 60 ? 'Passed' : 'Failed'\<close>.\<close>

definition passed :: "jsnum \<Rightarrow> bool" where
  "passed pct = js_ge pct 60"

section \<open>Tables of the backend\<close>

text \<open>
  Rows of the tables the client code reads and writes. A \<^verbatim>\<open>uuid\<close> is a string, a
  timestamp a natural number, a nullable column an option.
\<close>

type_synonym uuid = string

record exam_row =
  e_id :: uuid
  title :: string
  subject :: string
  exam_type :: string
  results_published :: bool

record submission_row =
  s_id :: uuid
  exam_id :: uuid
  student_id :: uuid
  submitted_at :: "nat option"
  total_score :: rat
  max_score :: rat
  is_graded :: bool

record question_row =
  q_id :: uuid
  question_type :: string
  correct_answer :: string
  marks :: rat

record answer_row =
  a_id :: uuid
  submission_id :: uuid
  question_id :: uuid
  created_at :: nat
  answer_text :: string
  is_correct :: "bool option"
  marks_awarded :: "rat option"
  feedback :: "string option"

record database =
  exams :: "exam_row list"
  exam_submissions :: "submission_row list"
  questions :: "question_row list"
  student_answers :: "answer_row list"

text \<open>A submission with its embedded exam (\<^verbatim>\<open>exam:exams(...)\<close>), \<open>null\<close> when the
  embedding finds no row; an answer with its embedded question.\<close>

record result = submission_row +
  exam :: "exam_row option"

record answer = answer_row +
  question :: "question_row option"

definition embed_exam :: "submission_row \<Rightarrow> exam_row option \<Rightarrow> result" where
  "embed_exam s e =
     \<lparr>s_id = s_id s, exam_id = exam_id s, student_id = student_id s,
      submitted_at = submitted_at s, total_score = total_score s, max_score = max_score s,
      is_graded = is_graded s, exam = e\<rparr>"

definition embed_question :: "answer_row \<Rightarrow> question_row option \<Rightarrow> answer" where
  "embed_question r q =
     \<lparr>a_id = a_id r, submission_id = submission_id r, question_id = question_id r,
      created_at = created_at r, answer_text = answer_text r, is_correct = is_correct r,
      marks_awarded = marks_awarded r, feedback = feedback r, question = q\<rparr>"

text \<open>\<^verbatim>\<open>.order('submitted_at', { ascending: false })\<close>: descending, and the rows
  without a timestamp first, as PostgreSQL orders \<open>NULL\<close> in a descending sort.\<close>

definition order_submitted_desc :: "result list \<Rightarrow> result list" where
  "order_submitted_desc rs =
     filter (\<lambda>r. submitted_at r = None) rs @
     rev (sort_key (\<lambda>r. the (submitted_at r)) (filter (\<lambda>r. submitted_at r \<noteq> None) rs))"

section \<open>The results list of a student\<close>

text \<open>\<^verbatim>\<open>fetchResults\<close>: the submissions of the signed-in student that have been
  submitted, each with its exam.\<close>

definition lookup_exam :: "database \<Rightarrow> uuid \<Rightarrow> exam_row option" where
  "lookup_exam db i = find (\<lambda>e. e_id e = i) (exams db)"

definition fetchResults :: "database \<Rightarrow> uuid \<Rightarrow> result list" where
  "fetchResults db uid =
     order_submitted_desc
       (map (\<lambda>s. embed_exam s (lookup_exam db (exam_id s)))
          (filter (\<lambda>s. student_id s = uid \<and> submitted_at s \<noteq> None) (exam_submissions db)))"

text \<open>What a row of the list shows on its right: the score, the percentage, the letter
  with its colour and the pass mark, or the badge \<^verbatim>\<open>Results Pending\<close>; and whether
  the link \<^verbatim>\<open>View Detail\<close> is rendered.\<close>

datatype score_panel =
  Score_detail rat rat jsnum string string bool
| Results_Pending

record row_view =
  panel :: score_panel
  view_detail_link :: bool

text \<open>\<^verbatim>\<open>result.exam?.results_published\<close>: falsy when the exam is \<open>null\<close>.\<close>

definition published :: "result \<Rightarrow> bool" where
  "published r = (case exam r of None \<Rightarrow> False | Some e \<Rightarrow> results_published e)"

definition render_result :: "result \<Rightarrow> row_view" where
  "render_result r =
     (let pct = row_percentage (total_score r) (max_score r);
          (grade, color) = getGrade pct
      in \<lparr>panel =
            (if published r
             then Score_detail (total_score r) (max_score r) pct grade color (passed pct)
             else Results_Pending),
          view_detail_link = is_graded r\<rparr>)"

section \<open>The report card\<close>

text \<open>
  \<^verbatim>\<open>fetchReportData\<close>: the graded submissions of the student; the filter on
  \<^verbatim>\<open>exam.results_published\<close> applies to the embedded exam, which is \<open>null\<close> where it
  fails, and the rows whose exam is \<open>null\<close> are dropped afterwards.
\<close>

definition fetchReportData :: "database \<Rightarrow> uuid \<Rightarrow> result list" where
  "fetchReportData db uid =
     (let results =
            order_submitted_desc
              (map (\<lambda>s. embed_exam s
                      (case lookup_exam db (exam_id s) of
                         None \<Rightarrow> None
                       | Some e \<Rightarrow> if results_published e then Some e else None))
                 (filter (\<lambda>s. student_id s = uid \<and> is_graded s) (exam_submissions db)))
      in filter (\<lambda>r. exam r \<noteq> None) results)"

record stats =
  average :: jsnum
  totalObtained :: rat
  totalMax :: rat
  grade :: string

definition calculateStats :: "result list \<Rightarrow> stats" where
  "calculateStats results =
     (if length results = 0
      then \<lparr>average = Fin 0, totalObtained = 0, totalMax = 0, grade = ''N/A''\<rparr>
      else
        let totalObtained = foldl (\<lambda>sum r. sum + or_zero (total_score r)) 0 results;
            totalMax = foldl (\<lambda>sum r. sum + or_zero (max_score r)) 0 results;
            average = (if 0 < totalMax then js_mul (js_div totalObtained totalMax) 100 else Fin 0);
            grade = (if js_ge average 90 then ''A''
                     else if js_ge average 80 then ''B''
                     else if js_ge average 70 then ''C''
                     else if js_ge average 60 then ''D''
                     else ''F'')
        in \<lparr>average = Math_round average, totalObtained = totalObtained,
            totalMax = totalMax, grade = grade\<rparr>)"

section \<open>Grading a submission\<close>

datatype toast = Success | Error string

text \<open>The answers of a submission in the order they were created, each with its
  question.\<close>

definition fetch_answers :: "database \<Rightarrow> uuid \<Rightarrow> answer list" where
  "fetch_answers db sid =
     map (\<lambda>r. embed_question r (find (\<lambda>q. q_id q = question_id r) (questions db)))
       (sort_key created_at (filter (\<lambda>r. submission_id r = sid) (student_answers db)))"

text \<open>
  The state of the submission page: \<^verbatim>\<open>submission\<close> (with its exam; the student's
  profile is left out), \<^verbatim>\<open>answers\<close> and \<^verbatim>\<open>loading\<close>, as \<^verbatim>\<open>useState\<close>
  initialises them. The backend may fail either read.
\<close>

record page =
  page_submission :: "result option"
  page_answers :: "answer list"
  loading :: bool

definition initial_page :: page where
  "initial_page = \<lparr>page_submission = None, page_answers = [], loading = True\<rparr>"

record reads =
  submission_read_error :: "string option"
  answers_read_error :: "string option"

text \<open>
  \<^verbatim>\<open>fetchData\<close>. The submission is read first; \<^verbatim>\<open>.single()\<close> is an error unless
  exactly one row has the id, and an error here leaves the state as it was. The
  submission is set before the answers are read, so an error of the second read leaves
  the page with the submission and the answers it had. Either error shows the same
  toast; \<^verbatim>\<open>loading\<close> ends in every case.
\<close>

definition fetchData :: "reads \<Rightarrow> database \<Rightarrow> uuid \<Rightarrow> page \<Rightarrow> toast option \<times> page" where
  "fetchData rd db sid pg =
     (case (case submission_read_error rd of
              Some e \<Rightarrow> None
            | None \<Rightarrow>
                (case filter (\<lambda>s. s_id s = sid) (exam_submissions db) of
                   [s] \<Rightarrow> Some s
                 | _ \<Rightarrow> None)) of
        None \<Rightarrow> (Some (Error ''Failed to load submission details''), pg\<lparr>loading := False\<rparr>)
      | Some s \<Rightarrow>
          let pg1 = pg\<lparr>page_submission := Some (embed_exam s (lookup_exam db (exam_id s)))\<rparr>
          in (case answers_read_error rd of
                Some e \<Rightarrow> (Some (Error ''Failed to load submission details''), pg1\<lparr>loading := False\<rparr>)
              | None \<Rightarrow> (None, pg1\<lparr>page_answers := fetch_answers db sid, loading := False\<rparr>)))"

text \<open>The button \<^verbatim>\<open>Save Grading\<close> is rendered once loading has ended, for a page that
  has a submission, to a teacher or an admin.\<close>

definition save_button :: "string \<Rightarrow> page \<Rightarrow> bool" where
  "save_button role pg =
     (\<not> loading pg \<and> page_submission pg \<noteq> None \<and> (role = ''teacher'' \<or> role = ''admin''))"

text \<open>
  The two call sites of \<^verbatim>\<open>handleGradeUpdate\<close> pass
  \<^verbatim>\<open>{ marks_awarded: Number(e.target.value) }\<close> and \<^verbatim>\<open>{ feedback: e.target.value }\<close>.
  The \<^verbatim>\<open>max\<close> attribute of the number input takes no part in the handler: the value
  typed is the value stored.
\<close>

datatype partial_answer = Marks_awarded rat | Feedback string

fun merge_update :: "answer \<Rightarrow> partial_answer \<Rightarrow> answer" where
  "merge_update a (Marks_awarded n) = a\<lparr>marks_awarded := Some n\<rparr>"
| "merge_update a (Feedback t) = a\<lparr>feedback := Some t\<rparr>"

definition handleGradeUpdate :: "uuid \<Rightarrow> partial_answer \<Rightarrow> answer list \<Rightarrow> answer list" where
  "handleGradeUpdate answerId updates prev =
     map (\<lambda>a. if a_id a = answerId then merge_update a updates else a) prev"

text \<open>
  The backend accepts or rejects each write. Which writes it rejects is not decided by
  the client code: \<open>answer_update_error\<close> gives the error of the update of an answer
  row, \<open>submission_update_error\<close> that of the update of the submission row.
\<close>

record backend =
  answer_update_error :: "uuid \<Rightarrow> string option"
  submission_update_error :: "string option"

text \<open>\<^verbatim>\<open>.from('student_answers').update({...}).eq('id', answer.id)\<close>.\<close>

definition update_answer :: "answer \<Rightarrow> answer_row list \<Rightarrow> answer_row list" where
  "update_answer a tbl =
     map (\<lambda>r. if a_id r = a_id a
               then r\<lparr>is_correct := is_correct a, marks_awarded := marks_awarded a,
                      feedback := feedback a\<rparr>
               else r) tbl"

text \<open>The loop over the answers: it stops at the first error, and the rows written
  before stay written.\<close>

fun save_answers :: "backend \<Rightarrow> answer list \<Rightarrow> answer_row list \<Rightarrow> string option \<times> answer_row list" where
  "save_answers be [] tbl = (None, tbl)"
| "save_answers be (a # as) tbl =
     (case answer_update_error be (a_id a) of
        Some e \<Rightarrow> (Some e, tbl)
      | None \<Rightarrow> save_answers be as (update_answer a tbl))"

definition grade_submission :: "uuid \<Rightarrow> rat \<Rightarrow> submission_row list \<Rightarrow> submission_row list" where
  "grade_submission sid totalScore tbl =
     map (\<lambda>s. if s_id s = sid then s\<lparr>total_score := totalScore, is_graded := True\<rparr> else s) tbl"

definition saveGrading :: "backend \<Rightarrow> uuid \<Rightarrow> answer list \<Rightarrow> database \<Rightarrow> toast \<times> database" where
  "saveGrading be sid answers db =
     (case save_answers be answers (student_answers db) of
        (Some e, tbl) \<Rightarrow> (Error e, db\<lparr>student_answers := tbl\<rparr>)
      | (None, tbl) \<Rightarrow>
          let totalScore = foldl (\<lambda>sum a. sum + or_zero_null (marks_awarded a)) 0 answers in
          (case submission_update_error be of
             Some e \<Rightarrow> (Error e, db\<lparr>student_answers := tbl\<rparr>)
           | None \<Rightarrow>
               (Success,
                db\<lparr>student_answers := tbl,
                   exam_submissions := grade_submission sid totalScore (exam_submissions db)\<rparr>)))"

section \<open>Account creation: the trigger function \<open>handle_new_user\<close>\<close>

text \<open>Modelled from the spec: the labels of the enum \<^verbatim>\<open>app_role\<close>. Its
  \<^verbatim>\<open>CREATE TYPE\<close> is not among the migrations, which add \<^verbatim>\<open>'admin'\<close> to it and
  name \<^verbatim>\<open>'teacher'\<close> and \<^verbatim>\<open>'student'\<close>.\<close>

datatype app_role = student | teacher | admin

fun role_text :: "app_role \<Rightarrow> string" where
  "role_text student = ''student''"
| "role_text teacher = ''teacher''"
| "role_text admin = ''admin''"

text \<open>The cast \<^verbatim>\<open>::public.app_role\<close> of a text: an error on a text that is no label.\<close>

definition to_app_role :: "string \<Rightarrow> app_role option" where
  "to_app_role t =
     (if t = ''student'' then Some student
      else if t = ''teacher'' then Some teacher
      else if t = ''admin'' then Some admin
      else None)"

datatype pg_error = Invalid_enum_input string | Unique_violation uuid | Update_failed

text \<open>A row of \<^verbatim>\<open>auth.users\<close> (the \<^verbatim>\<open>NEW\<close> of the trigger): a JSON object of
  metadata is the map from its keys to their texts, as \<^verbatim>\<open>->>\<close> reads them.\<close>

record auth_user =
  u_id :: uuid
  u_email :: string
  raw_user_meta_data :: "string \<rightharpoonup> string"
  raw_app_metadata :: "(string \<rightharpoonup> string) option"

record profile_row =
  user_id :: uuid
  full_name :: string
  email :: string
  p_student_id :: "string option"
  p_class :: "string option"

record identity_db =
  profiles :: "profile_row list"
  user_roles :: "(uuid \<times> app_role) list"
  auth_users :: "auth_user list"

text \<open>The profile row the trigger inserts:
  \<^verbatim>\<open>(NEW.id, COALESCE(NEW.raw_user_meta_data ->> 'full_name', NEW.email), NEW.email)\<close>.\<close>

definition new_profile :: "auth_user \<Rightarrow> profile_row" where
  "new_profile new =
     \<lparr>user_id = u_id new,
      full_name = (case raw_user_meta_data new ''full_name'' of None \<Rightarrow> u_email new | Some n \<Rightarrow> n),
      email = u_email new, p_student_id = None, p_class = None\<rparr>"

text \<open>\<^verbatim>\<open>INSERT INTO public.profiles ... ON CONFLICT (user_id) DO NOTHING\<close>.\<close>

definition insert_profile_do_nothing :: "profile_row \<Rightarrow> profile_row list \<Rightarrow> profile_row list" where
  "insert_profile_do_nothing p tbl =
     (if \<exists>r \<in> set tbl. user_id r = user_id p then tbl else tbl @ [p])"

text \<open>\<^verbatim>\<open>... ON CONFLICT (user_id) DO UPDATE SET full_name = EXCLUDED.full_name,
  email = EXCLUDED.email\<close>.\<close>

definition insert_profile_do_update :: "profile_row \<Rightarrow> profile_row list \<Rightarrow> profile_row list" where
  "insert_profile_do_update p tbl =
     (if \<exists>r \<in> set tbl. user_id r = user_id p
      then map (\<lambda>r. if user_id r = user_id p
                     then r\<lparr>full_name := full_name p, email := email p\<rparr> else r) tbl
      else tbl @ [p])"

text \<open>The same insertion with no \<^verbatim>\<open>ON CONFLICT\<close> clause: a second row for the user
  violates the unique key the clauses above name.\<close>

definition insert_profile :: "profile_row \<Rightarrow> profile_row list \<Rightarrow> pg_error + profile_row list" where
  "insert_profile p tbl =
     (if \<exists>r \<in> set tbl. user_id r = user_id p then Inl (Unique_violation (user_id p))
      else Inr (tbl @ [p]))"

text \<open>\<^verbatim>\<open>INSERT INTO public.user_roles ... ON CONFLICT (user_id, role) DO NOTHING\<close>.\<close>

definition insert_role_do_nothing :: "uuid \<times> app_role \<Rightarrow> (uuid \<times> app_role) list \<Rightarrow> (uuid \<times> app_role) list" where
  "insert_role_do_nothing ur tbl = (if ur \<in> set tbl then tbl else tbl @ [ur])"

text \<open>\<^verbatim>\<open>UPDATE auth.users SET raw_app_metadata = COALESCE(raw_app_metadata, '{}'::jsonb)
  || jsonb_build_object('role', initial_role) WHERE id = NEW.id\<close>.\<close>

definition sync_role :: "uuid \<Rightarrow> string \<Rightarrow> auth_user list \<Rightarrow> auth_user list" where
  "sync_role uid initial_role tbl =
     map (\<lambda>u. if u_id u = uid
               then u\<lparr>raw_app_metadata :=
                        Some ((case raw_app_metadata u of None \<Rightarrow> Map.empty | Some m \<Rightarrow> m)
                                (''role'' \<mapsto> initial_role))\<rparr>
               else u) tbl"

text \<open>
  The function as the last migration (\<^verbatim>\<open>20260117133000\<close>) leaves it. The role is read
  as a text, the profile is inserted, then the text is cast: an error of the cast aborts
  the trigger and with it every write of the statement, so the result is the error alone.
  The update of \<^verbatim>\<open>auth.users\<close> runs in a block of its own; when it fails
  (\<open>sync_fails\<close>) a warning is raised and the rest stands.
\<close>

definition handle_new_user :: "bool \<Rightarrow> auth_user \<Rightarrow> identity_db \<Rightarrow> pg_error + identity_db" where
  "handle_new_user sync_fails new db =
     (let initial_role = (case raw_user_meta_data new ''role'' of None \<Rightarrow> ''student'' | Some t \<Rightarrow> t);
          db1 = db\<lparr>profiles := insert_profile_do_nothing (new_profile new) (profiles db)\<rparr>
      in case to_app_role initial_role of
           None \<Rightarrow> Inl (Invalid_enum_input initial_role)
         | Some r \<Rightarrow>
             let db2 = db1\<lparr>user_roles := insert_role_do_nothing (u_id new, r) (user_roles db1)\<rparr>
             in Inr (if sync_fails then db2
                     else db2\<lparr>auth_users := sync_role (u_id new) initial_role (auth_users db2)\<rparr>))"

text \<open>
  The function of migration \<^verbatim>\<open>20260117131500\<close>:
  \<^verbatim>\<open>COALESCE((NEW.raw_user_meta_data ->> 'role')::public.app_role, 'student')\<close> casts
  first, and the profile is overwritten on a conflict.
\<close>

definition handle_new_user_131500 :: "bool \<Rightarrow> auth_user \<Rightarrow> identity_db \<Rightarrow> pg_error + identity_db" where
  "handle_new_user_131500 sync_fails new db =
     (case (case raw_user_meta_data new ''role'' of
              None \<Rightarrow> Inr student
            | Some t \<Rightarrow> (case to_app_role t of None \<Rightarrow> Inl (Invalid_enum_input t) | Some r \<Rightarrow> Inr r)) of
        Inl e \<Rightarrow> Inl e
      | Inr initial_role \<Rightarrow>
          let db1 = db\<lparr>profiles := insert_profile_do_update (new_profile new) (profiles db)\<rparr>;
              db2 = db1\<lparr>user_roles := insert_role_do_nothing (u_id new, initial_role) (user_roles db1)\<rparr>
          in Inr (if sync_fails then db2
                  else db2\<lparr>auth_users := sync_role (u_id new) (role_text initial_role) (auth_users db2)\<rparr>))"

text \<open>
  The function of migration \<^verbatim>\<open>20260117131000\<close>: the same cast, a plain insertion
  of the profile, and the update of \<^verbatim>\<open>auth.users\<close> with no \<^verbatim>\<open>COALESCE\<close> (a
  \<open>NULL\<close> \<^verbatim>\<open>raw_app_metadata\<close> stays \<open>NULL\<close>) and in no block of its own: its
  failure is the failure of the trigger.
\<close>

definition handle_new_user_131000 :: "bool \<Rightarrow> auth_user \<Rightarrow> identity_db \<Rightarrow> pg_error + identity_db" where
  "handle_new_user_131000 sync_fails new db =
     (case (case raw_user_meta_data new ''role'' of
              None \<Rightarrow> Inr student
            | Some t \<Rightarrow> (case to_app_role t of None \<Rightarrow> Inl (Invalid_enum_input t) | Some r \<Rightarrow> Inr r)) of
        Inl e \<Rightarrow> Inl e
      | Inr initial_role \<Rightarrow>
          (case insert_profile (new_profile new) (profiles db) of
             Inl e \<Rightarrow> Inl e
           | Inr ps \<Rightarrow>
               if sync_fails then Inl Update_failed
               else
                 Inr (db\<lparr>profiles := ps,
                         user_roles := insert_role_do_nothing (u_id new, initial_role) (user_roles db),
                         auth_users :=
                           map (\<lambda>u. if u_id u = u_id new
                                     then u\<lparr>raw_app_metadata :=
                                              map_option (\<lambda>m. m(''role'' \<mapsto> role_text initial_role))
                                                (raw_app_metadata u)\<rparr>
                                     else u) (auth_users db)\<rparr>)))"

text \<open>The function before those migrations: as the previous one, with no update of
  \<^verbatim>\<open>auth.users\<close>.\<close>

definition handle_new_user_initial :: "auth_user \<Rightarrow> identity_db \<Rightarrow> pg_error + identity_db" where
  "handle_new_user_initial new db =
     (case (case raw_user_meta_data new ''role'' of
              None \<Rightarrow> Inr student
            | Some t \<Rightarrow> (case to_app_role t of None \<Rightarrow> Inl (Invalid_enum_input t) | Some r \<Rightarrow> Inr r)) of
        Inl e \<Rightarrow> Inl e
      | Inr initial_role \<Rightarrow>
          (case insert_profile (new_profile new) (profiles db) of
             Inl e \<Rightarrow> Inl e
           | Inr ps \<Rightarrow>
               Inr (db\<lparr>profiles := ps,
                       user_roles := insert_role_do_nothing (u_id new, initial_role) (user_roles db)\<rparr>)))"

text \<open>The unique keys the \<^verbatim>\<open>ON CONFLICT\<close> clauses name: \<^verbatim>\<open>user_id\<close> on the
  profiles, \<^verbatim>\<open>(user_id, role)\<close> on the roles.\<close>

definition unique_keys :: "identity_db \<Rightarrow> bool" where
  "unique_keys db = (distinct (map user_id (profiles db)) \<and> distinct (user_roles db))"

section \<open>The specification's formulas and sample rows\<close>


text \<open>A graded submission of a published exam with the given score.\<close>

definition report_row :: "rat \<Rightarrow> rat \<Rightarrow> result" where
  "report_row score mx =
     \<lparr>s_id = ''s'', exam_id = ''e'', student_id = ''u'', submitted_at = Some 1,
      total_score = score, max_score = mx, is_graded = True,
      exam = Some \<lparr>e_id = ''e'', title = ''Algebra'', subject = ''Mathematics'',
                   exam_type = ''Exam'', results_published = True\<rparr>\<rparr>"

text \<open>A database with one exam and one submitted submission of student \<open>u1\<close>.\<close>

definition sample_exam :: "bool \<Rightarrow> exam_row" where
  "sample_exam pub =
     \<lparr>e_id = ''e1'', title = ''Algebra'', subject = ''Mathematics'', exam_type = ''Exam'',
      results_published = pub\<rparr>"

definition sample_submission :: "bool \<Rightarrow> rat \<Rightarrow> rat \<Rightarrow> submission_row" where
  "sample_submission graded score mx =
     \<lparr>s_id = ''s1'', exam_id = ''e1'', student_id = ''u1'', submitted_at = Some 5,
      total_score = score, max_score = mx, is_graded = graded\<rparr>"

definition sample_db :: "bool \<Rightarrow> bool \<Rightarrow> rat \<Rightarrow> rat \<Rightarrow> database" where
  "sample_db pub graded score mx =
     \<lparr>exams = [sample_exam pub], exam_submissions = [sample_submission graded score mx],
      questions = [], student_answers = []\<rparr>"

text \<open>A sequence of edits of the grading form, each a call of
  \<^verbatim>\<open>handleGradeUpdate\<close>.\<close>

definition apply_edits :: "(uuid \<times> partial_answer) list \<Rightarrow> answer list \<Rightarrow> answer list" where
  "apply_edits edits answers = fold (\<lambda>(i, u). handleGradeUpdate i u) edits answers"

text \<open>A backend that accepts every write, and one that rejects the update of one answer.\<close>

definition accepting :: backend where
  "accepting = \<lparr>answer_update_error = (\<lambda>i. None), submission_update_error = None\<rparr>"

definition rejecting_answer :: "uuid \<Rightarrow> backend" where
  "rejecting_answer i =
     \<lparr>answer_update_error = (\<lambda>j. if j = i then Some ''write rejected'' else None),
      submission_update_error = None\<rparr>"

text \<open>A database with a submitted, ungraded submission of two answers, for questions
  of 5 marks each.\<close>

definition sample_answer :: "uuid \<Rightarrow> uuid \<Rightarrow> nat \<Rightarrow> rat option \<Rightarrow> answer_row" where
  "sample_answer i q t m =
     \<lparr>a_id = i, submission_id = ''s1'', question_id = q, created_at = t, answer_text = ''x'',
      is_correct = None, marks_awarded = m, feedback = None\<rparr>"

definition grading_db :: database where
  "grading_db =
     \<lparr>exams = [sample_exam False],
      exam_submissions = [sample_submission False 0 10],
      questions = [\<lparr>q_id = ''q1'', question_type = ''essay'', correct_answer = '''', marks = 5\<rparr>,
                   \<lparr>q_id = ''q2'', question_type = ''essay'', correct_answer = '''', marks = 5\<rparr>],
      student_answers = [sample_answer ''a1'' ''q1'' 1 None, sample_answer ''a2'' ''q2'' 2 None]\<rparr>"

text \<open>The columns one update of an answer writes.\<close>

definition graded_row :: "answer \<Rightarrow> answer_row \<Rightarrow> answer_row" where
  "graded_row a r =
     r\<lparr>is_correct := is_correct a, marks_awarded := marks_awarded a, feedback := feedback a\<rparr>"

text \<open>The sample database after a first grading: marks 3 and 4, total 7.\<close>

definition graded_db :: database where
  "graded_db =
     grading_db\<lparr>student_answers :=
         [sample_answer ''a1'' ''q1'' 1 (Some 3), sample_answer ''a2'' ''q2'' 2 (Some 4)],
       exam_submissions := [sample_submission True 7 10]\<rparr>"


definition failing_answers_read :: reads where
  "failing_answers_read =
     \<lparr>submission_read_error = None, answers_read_error = Some ''connection lost''\<rparr>"


text \<open>Sample sign-ups: a new row of \<^verbatim>\<open>auth.users\<close> with its metadata, and the
  tables before the trigger runs.\<close>

definition signup :: "uuid \<Rightarrow> string \<Rightarrow> (string \<rightharpoonup> string) \<Rightarrow> auth_user" where
  "signup i mail meta =
     \<lparr>u_id = i, u_email = mail, raw_user_meta_data = meta, raw_app_metadata = None\<rparr>"

definition empty_identity_db :: "auth_user \<Rightarrow> identity_db" where
  "empty_identity_db new = \<lparr>profiles = [], user_roles = [], auth_users = [new]\<rparr>"

definition teacher_signup :: auth_user where
  "teacher_signup =
     signup ''u1'' ''ada@example.org'' [''role'' \<mapsto> ''teacher'', ''full_name'' \<mapsto> ''Ada'']"

text \<open>The tables after the sign-up of the teacher.\<close>

definition registered_db :: identity_db where
  "registered_db =
     \<lparr>profiles = [\<lparr>user_id = ''u1'', full_name = ''Ada'', email = ''ada@example.org'',
                    p_student_id = None, p_class = None\<rparr>],
      user_roles = [(''u1'', teacher)],
      auth_users = [teacher_signup\<lparr>raw_app_metadata := Some [''role'' \<mapsto> ''teacher'']\<rparr>]\<rparr>"

definition malformed_signup :: auth_user where
  "malformed_signup = signup ''u2'' ''bob@example.org'' [''role'' \<mapsto> ''superuser'']"

definition plain_signup :: auth_user where
  "plain_signup = signup ''u3'' ''eve@example.org'' Map.empty"


section \<open>Properties of the double arithmetic\<close>

text \<open>Rounding to an integer moves a number by a half at most.\<close>

lemma round_half_even_near: "\<bar>of_int (round_half_even r) - r\<bar> \<le> 1 / 2"
proof -
  have "of_int \<lfloor>r\<rfloor> \<le> r" "r < of_int \<lfloor>r\<rfloor> + 1" by linarith+
  then show ?thesis
    by (auto simp: round_half_even_def Let_def abs_le_iff)
qed

lemma round_half_even_int [simp]: "round_half_even (of_int n) = n"
  by (simp add: round_half_even_def)

text \<open>The exponent of a positive rational.\<close>

lemma floor_log2_bounds:
  assumes "0 < x"
  shows "power_int 2 (floor_log2 x) \<le> x \<and> x < power_int 2 (floor_log2 x + 1)"
proof (cases "1 \<le> x")
  case True
  let ?n = "\<lfloor>x\<rfloor>"
  have n: "0 < ?n" using True by linarith
  have b1: "1 \<le> bitlen ?n" using n by (simp add: bitlen_alt_def)
  from bitlen_bounds [OF n] have lo: "2 ^ nat (bitlen ?n - 1) \<le> ?n" and hi: "?n < 2 ^ nat (bitlen ?n)"
    by simp_all
  have "(2::rat) ^ nat (bitlen ?n - 1) = of_int (2 ^ nat (bitlen ?n - 1))" by simp
  also have "\<dots> \<le> of_int ?n" using lo by (simp only: of_int_le_iff)
  also have "\<dots> \<le> x" by linarith
  finally have A: "(2::rat) ^ nat (bitlen ?n - 1) \<le> x" .
  have n1: "?n + 1 \<le> 2 ^ nat (bitlen ?n)" using hi by simp
  have "x < of_int (?n + 1)" by linarith
  also have "\<dots> \<le> of_int (2 ^ nat (bitlen ?n))" using n1 by (simp only: of_int_le_iff)
  also have "\<dots> = 2 ^ nat (bitlen ?n)" by simp
  finally have B: "x < (2::rat) ^ nat (bitlen ?n)" .
  show ?thesis using True A B b1
    by (simp add: floor_log2_def power_int_def)
next
  case False
  then have x1: "x < 1" by simp
  let ?y = "1 / x"
  let ?c = "\<lceil>?y\<rceil>"
  have y1: "1 < ?y" using assms x1 by simp
  have c2: "2 \<le> ?c" using y1 by linarith
  then have c0: "0 < ?c - 1" by simp
  let ?k = "bitlen (?c - 1)"
  have k1: "1 \<le> ?k" using c0 by (simp add: bitlen_alt_def)
  from bitlen_bounds [OF c0] have lo: "2 ^ nat (?k - 1) \<le> ?c - 1" and hi: "?c - 1 < 2 ^ nat ?k"
    by simp_all
  have ck: "?c \<le> 2 ^ nat ?k" using hi by simp
  have "?y \<le> of_int ?c" by (rule le_of_int_ceiling)
  also have "\<dots> \<le> of_int (2 ^ nat ?k)" using ck by (simp only: of_int_le_iff)
  also have "\<dots> = 2 ^ nat ?k" by simp
  finally have yk: "?y \<le> 2 ^ nat ?k" .
  have "(2::rat) ^ nat (?k - 1) = of_int (2 ^ nat (?k - 1))" by simp
  also have "\<dots> \<le> of_int (?c - 1)" using lo by (simp only: of_int_le_iff)
  also have "\<dots> < ?y" by linarith
  finally have ky: "(2::rat) ^ nat (?k - 1) < ?y" .
  have A: "1 / 2 ^ nat ?k \<le> x"
  proof -
    have "1 \<le> x * 2 ^ nat ?k" using yk assms by (simp add: field_simps)
    then show ?thesis by (simp add: field_simps)
  qed
  have B: "x < 1 / 2 ^ nat (?k - 1)"
  proof -
    have "x * 2 ^ nat (?k - 1) < 1" using ky assms by (simp add: field_simps)
    then show ?thesis by (simp add: field_simps)
  qed
  have e: "floor_log2 x = - ?k" using False by (simp add: floor_log2_def)
  have p1: "power_int (2::rat) (- ?k) = 1 / 2 ^ nat ?k"
    using k1 by (simp add: power_int_def field_simps)
  have p2: "power_int (2::rat) (- ?k + 1) = 1 / 2 ^ nat (?k - 1)"
  proof (cases "?k = 1")
    case True
    then show ?thesis by simp
  next
    case False
    then have "1 < ?k" using k1 by simp
    then have "nat (- (- ?k + 1)) = nat (?k - 1)" "\<not> 0 \<le> - ?k + 1" by simp_all
    then show ?thesis by (simp add: power_int_def field_simps)
  qed
  show ?thesis unfolding e p1 p2 using A B by simp
qed


text \<open>A finite result of \<open>to_double\<close> is within half a unit in the last place of its
  argument, and a significand of at most 53 bits times that unit.\<close>

lemma to_double_nearest:
  assumes "to_double x = Fin y"
  shows "\<bar>y - x\<bar> \<le> power_int 2 (max (floor_log2 \<bar>x\<bar>) (- 1022) - 53)"
proof (cases "x = 0")
  case True
  then show ?thesis using assms by (simp add: to_double_def)
next
  case False
  let ?e = "max (floor_log2 \<bar>x\<bar>) (- 1022)"
  let ?ulp = "power_int (2::rat) (?e - 52)"
  have up: "0 < ?ulp" by simp
  have y: "y = of_int (round_half_even (x / ?ulp)) * ?ulp"
    using assms False by (simp add: to_double_def Let_def split: if_splits)
  have "\<bar>y - x\<bar> = \<bar>of_int (round_half_even (x / ?ulp)) - x / ?ulp\<bar> * ?ulp"
  proof -
    have "y - x = (of_int (round_half_even (x / ?ulp)) - x / ?ulp) * ?ulp"
      using up by (simp add: y field_simps)
    then show ?thesis using up by (simp add: abs_mult)
  qed
  also have "\<dots> \<le> (1 / 2) * ?ulp"
    using round_half_even_near [of "x / ?ulp"] up by (intro mult_right_mono) simp_all
  also have "\<dots> = power_int 2 (?e - 53)"
  proof -
    have "?e - 52 = ?e - 53 + 1" by simp
    then have "power_int (2::rat) (?e - 52) = power_int 2 (?e - 53 + 1)" by (rule arg_cong)
    also have "\<dots> = power_int 2 (?e - 53) * 2" by (subst power_int_add) simp_all
    finally show ?thesis by simp
  qed
  finally show ?thesis .
qed

lemma to_double_significand:
  assumes "to_double x = Fin y" and "x \<noteq> 0"
  shows "\<exists>m. y = of_int m * power_int 2 (max (floor_log2 \<bar>x\<bar>) (- 1022) - 52) \<and> \<bar>m\<bar> \<le> 2 ^ 53"
proof -
  let ?e = "max (floor_log2 \<bar>x\<bar>) (- 1022)"
  let ?ulp = "power_int (2::rat) (?e - 52)"
  let ?m = "round_half_even (x / ?ulp)"
  have up: "0 < ?ulp" by simp
  have y: "y = of_int ?m * ?ulp"
    using assms by (simp add: to_double_def Let_def split: if_splits)
  have ax: "0 < \<bar>x\<bar>" using assms(2) by simp
  from floor_log2_bounds [OF ax] have "\<bar>x\<bar> < power_int 2 (floor_log2 \<bar>x\<bar> + 1)" by simp
  also have "\<dots> \<le> power_int 2 (?e + 1)" by (intro power_int_increasing) simp_all
  also have "\<dots> = 2 ^ 53 * ?ulp"
  proof -
    have "?e + 1 = 53 + (?e - 52)" by simp
    then have "power_int (2::rat) (?e + 1) = power_int 2 (53 + (?e - 52))" by (rule arg_cong)
    also have "\<dots> = power_int 2 53 * power_int 2 (?e - 52)" by (subst power_int_add) simp_all
    finally show ?thesis by simp
  qed
  finally have "\<bar>x\<bar> / ?ulp < 2 ^ 53" using up by (simp add: field_simps)
  then have q: "\<bar>x / ?ulp\<bar> < 2 ^ 53" using up by (simp add: abs_divide)
  have "\<bar>of_int ?m :: rat\<bar> \<le> \<bar>of_int ?m - x / ?ulp\<bar> + \<bar>x / ?ulp\<bar>" by linarith
  also have "\<dots> < 1 / 2 + 2 ^ 53" using round_half_even_near [of "x / ?ulp"] q by linarith
  finally have "(of_int \<bar>?m\<bar> :: rat) < of_int (2 ^ 53 + 1)" by simp
  then have "\<bar>?m\<bar> < 2 ^ 53 + 1" by (simp only: of_int_less_iff)
  then have "\<bar>?m\<bar> \<le> 2 ^ 53" by simp
  with y show ?thesis by blast
qed

text \<open>One tenth as a double, and two ties above \<open>2^53\<close>.\<close>

lemma to_double_values:
  "to_double (1 / 10) = Fin (3602879701896397 / 36028797018963968)"
  "to_double 9007199254740993 = Fin 9007199254740992"
  "to_double 9007199254740995 = Fin 9007199254740996"
  by code_simp+

section \<open>Properties of the scoring\<close>


lemma foldl_plus_sum_list:
  "foldl (\<lambda>sum r. sum + f r) a xs = a + sum_list (map f xs)"
  by (induction xs arbitrary: a) (simp_all add: add.assoc)


lemma double_43_48: "js_mul (js_div 43 48) 100 = Fin (3151933332957867 / 35184372088832)"
  by code_simp

lemma double_7_10: "js_mul (js_div 7 10) 100 = Fin 70"
  by code_simp



lemma row_percentage_7_10: "row_percentage 7 10 = Fin 70"
  by (simp add: row_percentage_def double_7_10 floor_eq_iff)

lemma row_percentage_43_48: "row_percentage 43 48 = Fin 90"
  by (simp add: row_percentage_def double_43_48 floor_eq_iff)




text \<open>The table of \<^verbatim>\<open>getGrade\<close>, and the pass mark.\<close>

lemma getGrade_table:
  "(fst (getGrade (Fin pct)) = ''A'' \<longleftrightarrow> 90 \<le> pct) \<and>
   (fst (getGrade (Fin pct)) = ''B'' \<longleftrightarrow> 80 \<le> pct \<and> pct < 90) \<and>
   (fst (getGrade (Fin pct)) = ''C'' \<longleftrightarrow> 70 \<le> pct \<and> pct < 80) \<and>
   (fst (getGrade (Fin pct)) = ''D'' \<longleftrightarrow> 60 \<le> pct \<and> pct < 70) \<and>
   (fst (getGrade (Fin pct)) = ''F'' \<longleftrightarrow> pct < 60) \<and>
   (passed (Fin pct) \<longleftrightarrow> 60 \<le> pct)"
  by (simp add: getGrade_def passed_def)

text \<open>
  Claim C7. The results list looks the letter up for the rounded percentage, as the claim
  says: 43 marks out of 48 are 90 percent and an A. The report card looks it up for the
  percentage before rounding, in the row (\<^verbatim>\<open>getResultGrade\<close>) and in the overall grade
  (\<^verbatim>\<open>calculateStats\<close>): the same submission is shown there with 90 percent and a B.
\<close>

theorem report_card_letter_unrounded:
  "render_result (report_row 43 48) =
     \<lparr>panel = Score_detail 43 48 (Fin 90) ''A'' ''text-success'' True, view_detail_link = True\<rparr> \<and>
   row_percentage 43 48 = Fin 90 \<and>
   getResultGrade 43 48 = ''B'' \<and>
   average (calculateStats [report_row 43 48]) = Fin 90 \<and>
   grade (calculateStats [report_row 43 48]) = ''B''"
  by (simp add: render_result_def published_def report_row_def row_percentage_43_48 getGrade_def
        passed_def getResultGrade_def calculateStats_def Let_def or_zero_def double_43_48
        floor_eq_iff)

section \<open>Properties of the result views\<close>

text \<open>
  Claim C6. With a maximum of zero the row views divide all the same: 0/0 is \<open>NaN\<close> and
  3/0 is \<open>Infinity\<close>, and the results list shows \<open>NaN\<close> with the letter F, while the
  aggregate of the report card, which guards the division, is 0 on the same row.
\<close>

theorem row_percentage_zero_max:
  "row_percentage 0 0 = NaN \<and> row_percentage 3 0 = PosInf \<and>
   map render_result (fetchResults (sample_db True True 0 0) ''u1'') =
     [\<lparr>panel = Score_detail 0 0 NaN ''F'' ''text-destructive'' False, view_detail_link = True\<rparr>] \<and>
   average (calculateStats (fetchReportData (sample_db True True 0 0) ''u1'')) = Fin 0"
  by (simp add: row_percentage_def js_div_def fetchResults_def sample_db_def sample_submission_def
        sample_exam_def order_submitted_desc_def embed_exam_def lookup_exam_def render_result_def
        published_def getGrade_def passed_def fetchReportData_def calculateStats_def or_zero_def
        floor_eq_iff)

text \<open>Ordering the rows keeps them.\<close>

lemma set_order_submitted_desc [simp]: "set (order_submitted_desc rs) = set rs"
  by (auto simp: order_submitted_desc_def)

lemma embed_exam_sel [simp]:
  "is_graded (embed_exam s e) = is_graded s" "exam (embed_exam s e) = e"
  "total_score (embed_exam s e) = total_score s" "max_score (embed_exam s e) = max_score s"
  "s_id (embed_exam s e) = s_id s" "student_id (embed_exam s e) = student_id s"
  "submitted_at (embed_exam s e) = submitted_at s" "exam_id (embed_exam s e) = exam_id s"
  by (simp_all add: embed_exam_def)

text \<open>
  Claim C3, amended. For a submitted submission of the student: it is a row of the
  results list; the row shows the badge \<^verbatim>\<open>Results Pending\<close> exactly when its exam is
  not published, and the score detail otherwise; and it is a row of the report card
  exactly when it is graded and its exam is published.
\<close>

theorem publish_gate:
  assumes "s \<in> set (exam_submissions db)" and "student_id s = uid" and "submitted_at s \<noteq> None"
  shows "embed_exam s (lookup_exam db (exam_id s)) \<in> set (fetchResults db uid) \<and>
         (panel (render_result (embed_exam s (lookup_exam db (exam_id s)))) = Results_Pending
            \<longleftrightarrow> \<not> published (embed_exam s (lookup_exam db (exam_id s)))) \<and>
         (embed_exam s (lookup_exam db (exam_id s)) \<in> set (fetchReportData db uid)
            \<longleftrightarrow> is_graded s \<and> published (embed_exam s (lookup_exam db (exam_id s))))"
proof -
  let ?r = "embed_exam s (lookup_exam db (exam_id s))"
  have a: "?r \<in> set (fetchResults db uid)"
    using assms by (auto simp: fetchResults_def)
  have b: "panel (render_result ?r) = Results_Pending \<longleftrightarrow> \<not> published ?r"
    by (simp add: render_result_def Let_def split: prod.splits)
  have c: "?r \<in> set (fetchReportData db uid) \<longleftrightarrow> is_graded s \<and> published ?r"
  proof
    assume "?r \<in> set (fetchReportData db uid)"
    then have "\<exists>s' \<in> set (exam_submissions db). is_graded s' \<and>
        ?r = embed_exam s' (case lookup_exam db (exam_id s') of None \<Rightarrow> None
                 | Some e \<Rightarrow> if results_published e then Some e else None) \<and> exam ?r \<noteq> None"
      unfolding fetchReportData_def Let_def by (simp add: image_iff) blast
    then obtain s' where s': "s' \<in> set (exam_submissions db)" "is_graded s'"
      and eq: "?r = embed_exam s' (case lookup_exam db (exam_id s') of None \<Rightarrow> None
                 | Some e \<Rightarrow> if results_published e then Some e else None)"
      and ne: "exam ?r \<noteq> None"
      by blast
    from eq have "is_graded ?r = is_graded s'" by (metis embed_exam_sel(1))
    moreover from eq have "exam ?r = (case lookup_exam db (exam_id s') of None \<Rightarrow> None
                 | Some e \<Rightarrow> if results_published e then Some e else None)"
      by (metis embed_exam_sel(2))
    ultimately show "is_graded s \<and> published ?r" using s' ne
      by (auto simp: published_def split: option.splits if_splits)
  next
    assume h: "is_graded s \<and> published ?r"
    then have "(case lookup_exam db (exam_id s) of None \<Rightarrow> None
                 | Some e \<Rightarrow> if results_published e then Some e else None) = lookup_exam db (exam_id s)"
      by (auto simp: published_def split: option.splits)
    moreover have "exam ?r \<noteq> None" using h by (auto simp: published_def split: option.splits)
    ultimately show "?r \<in> set (fetchReportData db uid)"
      using assms h by (force simp: fetchReportData_def Let_def)
  qed
  from a b c show ?thesis by blast
qed

text \<open>A graded submission of an unpublished exam: pending in the list, absent from the
  report card.\<close>

theorem publish_gate_witness:
  "sample_submission True 7 10 \<in> set (exam_submissions (sample_db False True 7 10)) \<and>
   student_id (sample_submission True 7 10) = ''u1'' \<and>
   submitted_at (sample_submission True 7 10) \<noteq> None \<and>
   map render_result (fetchResults (sample_db False True 7 10) ''u1'') =
     [\<lparr>panel = Results_Pending, view_detail_link = True\<rparr>] \<and>
   panel (render_result (embed_exam (sample_submission True 7 10) (Some (sample_exam False))))
     = Results_Pending \<and>
   embed_exam (sample_submission True 7 10) (Some (sample_exam False))
     \<notin> set (fetchReportData (sample_db False True 7 10) ''u1'') \<and>
   fetchReportData (sample_db False True 7 10) ''u1'' = []"
  using publish_gate [of "sample_submission True 7 10" "sample_db False True 7 10" "''u1''"]
  by (simp add: sample_db_def sample_submission_def sample_exam_def lookup_exam_def
        fetchResults_def fetchReportData_def order_submitted_desc_def embed_exam_def
        render_result_def published_def getGrade_def row_percentage_7_10)

text \<open>A submission that is not graded, of a published exam: the list shows its score,
  its percentage and its letter.\<close>

theorem ungraded_published_counterexample:
  "\<not> is_graded (sample_submission False 7 10) \<and>
   map render_result (fetchResults (sample_db True False 7 10) ''u1'') =
     [\<lparr>panel = Score_detail 7 10 (Fin 70) ''C'' ''text-warning'' True, view_detail_link = False\<rparr>]"
  by (simp add: sample_db_def sample_submission_def sample_exam_def lookup_exam_def
        fetchResults_def order_submitted_desc_def embed_exam_def passed_def
        render_result_def published_def getGrade_def row_percentage_7_10)

section \<open>Properties of grading\<close>

lemmas sample_defs = grading_db_def sample_answer_def sample_submission_def sample_exam_def
  accepting_def rejecting_answer_def

lemmas grading_defs = saveGrading_def fetch_answers_def embed_question_def handleGradeUpdate_def
  apply_edits_def update_answer_def grade_submission_def or_zero_null_def or_zero_def

text \<open>The loop writes the answers before the first rejected one, and no other.\<close>

lemma save_answers_snd:
  "snd (save_answers be as tbl) =
     fold update_answer (takeWhile (\<lambda>a. answer_update_error be (a_id a) = None) as) tbl"
  by (induction as arbitrary: tbl) (auto split: option.splits)

lemma save_answers_fst:
  "fst (save_answers be as tbl) = None \<longleftrightarrow>
     takeWhile (\<lambda>a. answer_update_error be (a_id a) = None) as = as"
  by (induction as arbitrary: tbl) (auto split: option.splits)

text \<open>
  Claim C1, amended. A grading save is not all-or-nothing. The answers are written one by
  one up to the first rejected write, and those written stay written. The save succeeds
  exactly when no write is rejected; the submission row is written last, so when the save
  fails the submissions are as before (prior \<open>total_score\<close> and \<open>is_graded\<close>), and when
  it succeeds the submission has the new total and is graded.
\<close>

theorem saveGrading_not_atomic:
  "student_answers (snd (saveGrading be sid answers db)) =
     fold update_answer (takeWhile (\<lambda>a. answer_update_error be (a_id a) = None) answers)
       (student_answers db) \<and>
   (fst (saveGrading be sid answers db) = Success \<longleftrightarrow>
      takeWhile (\<lambda>a. answer_update_error be (a_id a) = None) answers = answers \<and>
      submission_update_error be = None) \<and>
   (fst (saveGrading be sid answers db) \<noteq> Success \<longrightarrow>
      exam_submissions (snd (saveGrading be sid answers db)) = exam_submissions db) \<and>
   (fst (saveGrading be sid answers db) = Success \<longrightarrow>
      exam_submissions (snd (saveGrading be sid answers db)) =
        grade_submission sid (sum_list (map (\<lambda>a. or_zero_null (marks_awarded a)) answers))
          (exam_submissions db))"
proof -
  obtain e tbl where sa: "save_answers be answers (student_answers db) = (e, tbl)"
    by (cases "save_answers be answers (student_answers db)")
  have tbl: "tbl = fold update_answer
      (takeWhile (\<lambda>a. answer_update_error be (a_id a) = None) answers) (student_answers db)"
    using save_answers_snd [of be answers "student_answers db"] sa by simp
  have e: "e = None \<longleftrightarrow> takeWhile (\<lambda>a. answer_update_error be (a_id a) = None) answers = answers"
    using save_answers_fst [of be answers "student_answers db"] sa by simp
  show ?thesis
    using tbl e sa
    by (cases e; cases "submission_update_error be")
       (simp_all add: saveGrading_def Let_def foldl_plus_sum_list)
qed

text \<open>Two answers graded 3 and 4: the write of the second rejected, and every write
  accepted.\<close>

theorem saveGrading_not_atomic_witness:
  "fst (saveGrading (rejecting_answer ''a2'') ''s1''
          (apply_edits [(''a1'', Marks_awarded 3), (''a2'', Marks_awarded 4)]
             (fetch_answers grading_db ''s1'')) grading_db) \<noteq> Success \<and>
   exam_submissions (snd (saveGrading (rejecting_answer ''a2'') ''s1''
          (apply_edits [(''a1'', Marks_awarded 3), (''a2'', Marks_awarded 4)]
             (fetch_answers grading_db ''s1'')) grading_db)) = exam_submissions grading_db \<and>
   fst (saveGrading accepting ''s1''
          (apply_edits [(''a1'', Marks_awarded 3), (''a2'', Marks_awarded 4)]
             (fetch_answers grading_db ''s1'')) grading_db) = Success \<and>
   exam_submissions (snd (saveGrading accepting ''s1''
          (apply_edits [(''a1'', Marks_awarded 3), (''a2'', Marks_awarded 4)]
             (fetch_answers grading_db ''s1'')) grading_db)) = [sample_submission True 7 10]"
  using saveGrading_not_atomic [of "rejecting_answer ''a2''" "''s1''"
          "apply_edits [(''a1'', Marks_awarded 3), (''a2'', Marks_awarded 4)]
             (fetch_answers grading_db ''s1'')" grading_db]
    saveGrading_not_atomic [of accepting "''s1''"
          "apply_edits [(''a1'', Marks_awarded 3), (''a2'', Marks_awarded 4)]
             (fetch_answers grading_db ''s1'')" grading_db]
  by (simp add: sample_defs grading_defs)

text \<open>On the same input the grade of the first answer is persisted although the save
  fails: the answers and the submission do not change together.\<close>

theorem partial_grading_counterexample:
  "saveGrading (rejecting_answer ''a2'') ''s1''
     (apply_edits [(''a1'', Marks_awarded 3), (''a2'', Marks_awarded 4)]
        (fetch_answers grading_db ''s1'')) grading_db =
   (Error ''write rejected'',
    grading_db\<lparr>student_answers :=
      [sample_answer ''a1'' ''q1'' 1 (Some 3), sample_answer ''a2'' ''q2'' 2 None]\<rparr>) \<and>
   map marks_awarded (student_answers grading_db) = [None, None] \<and>
   map is_graded (exam_submissions grading_db) = [False]"
  by (simp add: sample_defs grading_defs)

text \<open>
  Claim C2. No mark is validated. For two questions of 5 marks, the marks 7 and -3 typed
  into the form are saved as they are, the total 4 is written and the submission is
  graded.
\<close>

theorem out_of_range_marks_saved:
  "map (\<lambda>a. (marks_awarded a, map_option marks (question a)))
     (apply_edits [(''a1'', Marks_awarded 7), (''a2'', Marks_awarded (- 3))]
        (fetch_answers grading_db ''s1'')) = [(Some 7, Some 5), (Some (- 3), Some 5)] \<and>
   saveGrading accepting ''s1''
     (apply_edits [(''a1'', Marks_awarded 7), (''a2'', Marks_awarded (- 3))]
        (fetch_answers grading_db ''s1'')) grading_db =
   (Success,
    grading_db\<lparr>student_answers :=
        [sample_answer ''a1'' ''q1'' 1 (Some 7), sample_answer ''a2'' ''q2'' 2 (Some (- 3))],
      exam_submissions := [sample_submission True 4 10]\<rparr>)"
  by (simp add: sample_defs grading_defs)

text \<open>A save none of whose writes is rejected.\<close>

lemma saveGrading_accepted:
  assumes "\<forall>a \<in> set answers. answer_update_error be (a_id a) = None"
    and "submission_update_error be = None"
  shows "saveGrading be sid answers db =
     (Success,
      db\<lparr>student_answers := fold update_answer answers (student_answers db),
         exam_submissions :=
           grade_submission sid (sum_list (map (\<lambda>a. or_zero_null (marks_awarded a)) answers))
             (exam_submissions db)\<rparr>)"
proof -
  have tw: "takeWhile (\<lambda>a. answer_update_error be (a_id a) = None) answers = answers"
    using assms(1) by (simp add: takeWhile_eq_all_conv)
  obtain e tbl where sa: "save_answers be answers (student_answers db) = (e, tbl)"
    by (cases "save_answers be answers (student_answers db)")
  have "tbl = fold update_answer answers (student_answers db)"
    using save_answers_snd [of be answers "student_answers db"] sa tw by simp
  moreover have "e = None"
    using save_answers_fst [of be answers "student_answers db"] sa tw by simp
  ultimately show ?thesis
    using sa assms(2) by (simp add: saveGrading_def Let_def foldl_plus_sum_list)
qed


lemma grade_submission_row:
  assumes "s \<in> set (grade_submission sid t tbl)" and "s_id s = sid"
  shows "is_graded s \<and> total_score s = t"
proof -
  from assms(1) obtain x where
    sx: "s = (if s_id x = sid then x\<lparr>total_score := t, is_graded := True\<rparr> else x)"
    unfolding grade_submission_def set_map image_iff by blast
  show ?thesis
  proof (cases "s_id x = sid")
    case True
    then show ?thesis using sx by simp
  next
    case False
    then show ?thesis using sx assms(2) by simp
  qed
qed

lemma or_zero_null_case: "or_zero_null v = (case v of None \<Rightarrow> 0 | Some m \<Rightarrow> m)"
  by (simp add: or_zero_null_def or_zero_def split: option.splits)


text \<open>
  Claim C10. A grading save whose writes are accepted does not reject answers whose marks
  are still \<open>null\<close>: it succeeds, counts each \<open>null\<close> as 0 in the total it writes and
  sets \<open>is_graded\<close>.
\<close>

theorem null_marks_graded:
  assumes "\<forall>a \<in> set answers. answer_update_error be (a_id a) = None"
    and "submission_update_error be = None"
  shows "fst (saveGrading be sid answers db) = Success \<and>
         (\<forall>s \<in> set (exam_submissions (snd (saveGrading be sid answers db))).
            s_id s = sid \<longrightarrow>
              is_graded s \<and>
              total_score s =
                sum_list (map (\<lambda>a. case marks_awarded a of None \<Rightarrow> 0 | Some m \<Rightarrow> m) answers))"
proof -
  have eq: "(\<lambda>a. or_zero_null (marks_awarded a)) =
        (\<lambda>a::answer. case marks_awarded a of None \<Rightarrow> 0 | Some m \<Rightarrow> m)"
    by (simp add: or_zero_null_case)
  have sg: "saveGrading be sid answers db =
     (Success,
      db\<lparr>student_answers := fold update_answer answers (student_answers db),
         exam_submissions :=
           grade_submission sid
             (sum_list (map (\<lambda>a. case marks_awarded a of None \<Rightarrow> 0 | Some m \<Rightarrow> m) answers))
             (exam_submissions db)\<rparr>)"
    using saveGrading_accepted [OF assms, of sid db] unfolding eq .
  show ?thesis
  proof (intro conjI ballI impI)
    show "fst (saveGrading be sid answers db) = Success" by (simp add: sg)
  next
    fix s assume "s \<in> set (exam_submissions (snd (saveGrading be sid answers db)))" "s_id s = sid"
    then show "is_graded s" by (simp add: sg grade_submission_row [of s sid])
  next
    fix s assume "s \<in> set (exam_submissions (snd (saveGrading be sid answers db)))" "s_id s = sid"
    then show "total_score s =
        sum_list (map (\<lambda>a. case marks_awarded a of None \<Rightarrow> 0 | Some m \<Rightarrow> m) answers)"
      using grade_submission_row [of s sid] by (simp add: sg)
  qed
qed


text \<open>One answer graded 3, the other never graded: the submission is graded with total
  3 and the second answer keeps \<open>null\<close> marks.\<close>

theorem null_marks_graded_witness:
  "answer_update_error accepting = (\<lambda>i. None) \<and>
   submission_update_error accepting = None \<and>
   map marks_awarded (apply_edits [(''a1'', Marks_awarded 3)] (fetch_answers grading_db ''s1''))
     = [Some 3, None] \<and>
   fst (saveGrading accepting ''s1''
     (apply_edits [(''a1'', Marks_awarded 3)] (fetch_answers grading_db ''s1'')) grading_db)
     = Success \<and>
   map (\<lambda>s. (s_id s, is_graded s, total_score s))
     (exam_submissions (snd (saveGrading accepting ''s1''
        (apply_edits [(''a1'', Marks_awarded 3)] (fetch_answers grading_db ''s1'')) grading_db)))
     = [(''s1'', True, 3)] \<and>
   map marks_awarded
     (student_answers (snd (saveGrading accepting ''s1''
        (apply_edits [(''a1'', Marks_awarded 3)] (fetch_answers grading_db ''s1'')) grading_db)))
     = [Some 3, None]"
proof -
  let ?answers = "apply_edits [(''a1'', Marks_awarded 3)] (fetch_answers grading_db ''s1'')"
  have h1: "\<forall>a \<in> set ?answers. answer_update_error accepting (a_id a) = None"
    by (simp add: accepting_def)
  have h2: "submission_update_error accepting = None"
    by (simp add: accepting_def)
  have t: "fst (saveGrading accepting ''s1'' ?answers grading_db) = Success"
    using null_marks_graded [OF h1 h2, of "''s1''" grading_db] by (rule conjunct1)
  have e1: "map marks_awarded ?answers = [Some 3, None]"
    by (simp add: sample_defs grading_defs)
  have e2: "snd (saveGrading accepting ''s1'' ?answers grading_db) =
      grading_db\<lparr>student_answers :=
          [sample_answer ''a1'' ''q1'' 1 (Some 3), sample_answer ''a2'' ''q2'' 2 None],
        exam_submissions := [sample_submission True 3 10]\<rparr>"
    by (simp add: sample_defs grading_defs)
  have e3: "map (\<lambda>s. (s_id s, is_graded s, total_score s)) [sample_submission True 3 10]
      = [(''s1'', True, 3)]"
    by (simp add: sample_submission_def)
  have e4: "map marks_awarded
      [sample_answer ''a1'' ''q1'' 1 (Some 3), sample_answer ''a2'' ''q2'' 2 None] = [Some 3, None]"
    by (simp add: sample_answer_def)
  have e5: "answer_update_error accepting = (\<lambda>i. None)"
    by (simp add: accepting_def)
  show ?thesis
    unfolding e2 using e5 h2 e1 t e3 e4 by simp
qed

section \<open>The total of a graded submission\<close>

lemma graded_row_sel [simp]:
  "a_id (graded_row a r) = a_id r" "submission_id (graded_row a r) = submission_id r"
  "marks_awarded (graded_row a r) = marks_awarded a"
  by (simp_all add: graded_row_def)


lemma a_id_merge_update [simp]: "a_id (merge_update a u) = a_id a"
  by (cases u) simp_all

lemma map_a_id_handleGradeUpdate [simp]:
  "map a_id (handleGradeUpdate i u as) = map a_id as"
  by (simp add: handleGradeUpdate_def)


















text \<open>
  When the read of the answers fails, the page has the submission and no answers, and the
  button is there: a save then writes the total 0 beside the stored marks 3 and 4.
\<close>

lemma save_after_failed_answers_read:
  "page_answers (snd (fetchData failing_answers_read graded_db ''s1'' initial_page)) = [] \<and>
   save_button ''teacher'' (snd (fetchData failing_answers_read graded_db ''s1'' initial_page)) \<and>
   fst (saveGrading accepting ''s1''
          (page_answers (snd (fetchData failing_answers_read graded_db ''s1'' initial_page)))
          graded_db) = Success \<and>
   map (\<lambda>s. (is_graded s, total_score s))
     (exam_submissions (snd (saveGrading accepting ''s1''
        (page_answers (snd (fetchData failing_answers_read graded_db ''s1'' initial_page)))
        graded_db))) = [(True, 0)] \<and>
   map marks_awarded
     (student_answers (snd (saveGrading accepting ''s1''
        (page_answers (snd (fetchData failing_answers_read graded_db ''s1'' initial_page)))
        graded_db))) = [Some 3, Some 4]"
proof -
  have pg: "snd (fetchData failing_answers_read graded_db ''s1'' initial_page) =
      \<lparr>page_submission = Some (embed_exam (sample_submission True 7 10) (Some (sample_exam False))),
       page_answers = [], loading = False\<rparr>"
    by (simp add: fetchData_def failing_answers_read_def initial_page_def graded_db_def
          sample_defs lookup_exam_def Let_def)
  show ?thesis
    unfolding pg by (simp add: save_button_def graded_db_def sample_defs grading_defs)
qed

section \<open>Properties of account creation\<close>

lemmas identity_defs = handle_new_user_def handle_new_user_131500_def handle_new_user_131000_def
  handle_new_user_initial_def
  new_profile_def insert_profile_do_nothing_def insert_profile_do_update_def insert_profile_def
  insert_role_do_nothing_def sync_role_def to_app_role_def signup_def empty_identity_db_def
  teacher_signup_def registered_db_def unique_keys_def Let_def

text \<open>The cast accepts exactly the labels of the enum.\<close>

lemma to_app_role_iff: "to_app_role t = Some r \<longleftrightarrow> t = role_text r"
  by (cases r) (auto simp: to_app_role_def)

lemma ipdn_idem:
  "insert_profile_do_nothing p (insert_profile_do_nothing p tbl) = insert_profile_do_nothing p tbl"
  by (simp add: insert_profile_do_nothing_def)

lemma ipdn_distinct:
  "distinct (map user_id tbl) \<Longrightarrow> distinct (map user_id (insert_profile_do_nothing p tbl))"
  by (auto simp: insert_profile_do_nothing_def)

lemma one_row_of_key:
  "distinct (map k xs) \<Longrightarrow> x \<in> set xs \<Longrightarrow> length (filter (\<lambda>y. k y = k x) xs) = 1"
proof (induction xs)
  case Nil
  then show ?case by simp
next
  case (Cons y ys)
  show ?case
  proof (cases "x = y")
    case True
    have "filter (\<lambda>z. k z = k y) ys = []"
      using Cons.prems(1) by (auto simp: filter_empty_conv) (metis imageI)
    then show ?thesis using True by simp
  next
    case False
    then have xin: "x \<in> set ys" using Cons.prems(2) by simp
    then have "k y \<noteq> k x" using Cons.prems(1) by (auto simp: image_iff)
    then show ?thesis using Cons.IH xin Cons.prems(1) by simp
  qed
qed

lemma ipdn_one_row:
  assumes "distinct (map user_id tbl)"
  shows "length (filter (\<lambda>r. user_id r = user_id p) (insert_profile_do_nothing p tbl)) = 1"
proof (cases "\<exists>r \<in> set tbl. user_id r = user_id p")
  case True
  then obtain r where r: "r \<in> set tbl" "user_id r = user_id p" by blast
  from one_row_of_key [OF assms r(1)] r(2) True show ?thesis
    by (simp add: insert_profile_do_nothing_def)
next
  case False
  then have "filter (\<lambda>r. user_id r = user_id p) tbl = []"
    by (auto simp: filter_empty_conv)
  then show ?thesis using False by (simp add: insert_profile_do_nothing_def)
qed

lemma irdn_idem:
  "insert_role_do_nothing ur (insert_role_do_nothing ur tbl) = insert_role_do_nothing ur tbl"
  by (simp add: insert_role_do_nothing_def)

lemma irdn_distinct: "distinct tbl \<Longrightarrow> distinct (insert_role_do_nothing ur tbl)"
  by (simp add: insert_role_do_nothing_def)

lemma ipdu_keys:
  "map user_id (insert_profile_do_update p tbl) =
     (if \<exists>r \<in> set tbl. user_id r = user_id p then map user_id tbl else map user_id tbl @ [user_id p])"
  by (simp add: insert_profile_do_update_def comp_def if_distrib cong: if_cong)

lemma ipdu_idem:
  "insert_profile_do_update p (insert_profile_do_update p tbl) = insert_profile_do_update p tbl"
proof (cases "\<exists>r \<in> set tbl. user_id r = user_id p")
  case True
  then have "\<exists>r \<in> set (insert_profile_do_update p tbl). user_id r = user_id p"
    using ipdu_keys [of p tbl] by (metis (no_types, lifting) image_iff list.set_map)
  then show ?thesis using True
    by (simp add: insert_profile_do_update_def comp_def if_distrib cong: if_cong)
next
  case False
  then have "map (\<lambda>r. if user_id r = user_id p then r\<lparr>full_name := full_name p, email := email p\<rparr> else r) tbl = tbl"
    by (induction tbl) auto
  then show ?thesis using False
    by (simp add: insert_profile_do_update_def)
qed


lemma handle_new_user_Inr:
  "handle_new_user sf new db = Inr db1 \<Longrightarrow>
     \<exists>r. to_app_role (case raw_user_meta_data new ''role'' of None \<Rightarrow> ''student'' | Some t \<Rightarrow> t)
           = Some r \<and>
         profiles db1 = insert_profile_do_nothing (new_profile new) (profiles db) \<and>
         user_roles db1 = insert_role_do_nothing (u_id new, r) (user_roles db)"
  by (auto simp: handle_new_user_def Let_def split: option.splits if_splits)

lemma handle_new_user_131500_Inr:
  "handle_new_user_131500 sf new db = Inr db1 \<Longrightarrow>
     \<exists>r. (case raw_user_meta_data new ''role'' of None \<Rightarrow> Some student | Some t \<Rightarrow> to_app_role t)
           = Some r \<and>
         profiles db1 = insert_profile_do_update (new_profile new) (profiles db) \<and>
         user_roles db1 = insert_role_do_nothing (u_id new, r) (user_roles db)"
  by (auto simp: handle_new_user_131500_def Let_def split: option.splits if_splits sum.splits)

lemma ipdu_distinct:
  "distinct (map user_id tbl) \<Longrightarrow> distinct (map user_id (insert_profile_do_update p tbl))"
  by (auto simp: ipdu_keys)

lemma ipdu_one_row:
  assumes "distinct (map user_id tbl)"
  shows "length (filter (\<lambda>r. user_id r = user_id p) (insert_profile_do_update p tbl)) = 1"
proof -
  have "user_id p \<in> set (map user_id (insert_profile_do_update p tbl))"
    unfolding ipdu_keys by (auto intro: rev_image_eqI)
  then obtain r where r: "r \<in> set (insert_profile_do_update p tbl)" "user_id r = user_id p"
    by auto
  from one_row_of_key [OF ipdu_distinct [OF assms, of p] r(1)] r(2) show ?thesis by simp
qed

lemma handle_new_user_twice:
  assumes "unique_keys db" and "handle_new_user sf new db = Inr db1"
  shows "unique_keys db1 \<and>
         length (filter (\<lambda>p. user_id p = u_id new) (profiles db1)) = 1 \<and>
         (\<exists>db2. handle_new_user sf' new db1 = Inr db2 \<and>
                profiles db2 = profiles db1 \<and> user_roles db2 = user_roles db1)"
proof -
  from handle_new_user_Inr [OF assms(2)] obtain r where
    r: "to_app_role (case raw_user_meta_data new ''role'' of None \<Rightarrow> ''student'' | Some t \<Rightarrow> t) = Some r"
    and p: "profiles db1 = insert_profile_do_nothing (new_profile new) (profiles db)"
    and u: "user_roles db1 = insert_role_do_nothing (u_id new, r) (user_roles db)"
    by blast
  have uk: "unique_keys db1"
    using assms(1) by (simp add: unique_keys_def p u ipdn_distinct irdn_distinct)
  have "length (filter (\<lambda>q. user_id q = user_id (new_profile new)) (profiles db1)) = 1"
    unfolding p using assms(1) by (intro ipdn_one_row) (simp add: unique_keys_def)
  then have one: "length (filter (\<lambda>p. user_id p = u_id new) (profiles db1)) = 1"
    by (simp add: new_profile_def)
  have "\<exists>db2. handle_new_user sf' new db1 = Inr db2 \<and>
          profiles db2 = profiles db1 \<and> user_roles db2 = user_roles db1"
    by (cases sf') (simp_all add: handle_new_user_def Let_def r p u ipdn_idem irdn_idem)
  with uk one show ?thesis by blast
qed

lemma handle_new_user_131500_twice:
  assumes "unique_keys db" and "handle_new_user_131500 sf new db = Inr db1"
  shows "unique_keys db1 \<and>
         length (filter (\<lambda>p. user_id p = u_id new) (profiles db1)) = 1 \<and>
         (\<exists>db2. handle_new_user_131500 sf' new db1 = Inr db2 \<and>
                profiles db2 = profiles db1 \<and> user_roles db2 = user_roles db1)"
proof -
  from handle_new_user_131500_Inr [OF assms(2)] obtain r where
    r: "(case raw_user_meta_data new ''role'' of None \<Rightarrow> Some student | Some t \<Rightarrow> to_app_role t) = Some r"
    and p: "profiles db1 = insert_profile_do_update (new_profile new) (profiles db)"
    and u: "user_roles db1 = insert_role_do_nothing (u_id new, r) (user_roles db)"
    by blast
  have uk: "unique_keys db1"
    using assms(1) by (simp add: unique_keys_def p u ipdu_distinct irdn_distinct)
  have "length (filter (\<lambda>q. user_id q = user_id (new_profile new)) (profiles db1)) = 1"
    unfolding p using assms(1) by (intro ipdu_one_row) (simp add: unique_keys_def)
  then have one: "length (filter (\<lambda>p. user_id p = u_id new) (profiles db1)) = 1"
    by (simp add: new_profile_def)
  have "\<exists>db2. handle_new_user_131500 sf' new db1 = Inr db2 \<and>
          profiles db2 = profiles db1 \<and> user_roles db2 = user_roles db1"
    using r
    by (cases sf')
       (auto simp: handle_new_user_131500_def Let_def p u ipdu_idem irdn_idem split: option.splits)
  with uk one show ?thesis by blast
qed

text \<open>
  Claim C8. On tables that satisfy their unique keys, after a run of
  \<open>handle_new_user\<close> that succeeded the keys still hold, the user has exactly one
  profile row, and a second run for the same new user succeeds and leaves the profiles and
  the roles as they are: no second profile, no second row for the role, no error. The
  same holds of the function of migration \<^verbatim>\<open>20260117131500\<close>.
\<close>

theorem handle_new_user_idempotent:
  assumes "unique_keys db"
  shows "(handle_new_user sf new db = Inr db1 \<longrightarrow>
            unique_keys db1 \<and>
            length (filter (\<lambda>p. user_id p = u_id new) (profiles db1)) = 1 \<and>
            (\<exists>db2. handle_new_user sf' new db1 = Inr db2 \<and>
                   profiles db2 = profiles db1 \<and> user_roles db2 = user_roles db1)) \<and>
         (handle_new_user_131500 sf new db = Inr db1 \<longrightarrow>
            unique_keys db1 \<and>
            length (filter (\<lambda>p. user_id p = u_id new) (profiles db1)) = 1 \<and>
            (\<exists>db2. handle_new_user_131500 sf' new db1 = Inr db2 \<and>
                   profiles db2 = profiles db1 \<and> user_roles db2 = user_roles db1))"
  using handle_new_user_twice [OF assms] handle_new_user_131500_twice [OF assms] by blast


text \<open>A teacher signs up; the trigger runs twice.\<close>

theorem handle_new_user_idempotent_witness:
  "unique_keys (empty_identity_db teacher_signup) \<and>
   handle_new_user False teacher_signup (empty_identity_db teacher_signup) = Inr registered_db \<and>
   handle_new_user_131500 False teacher_signup (empty_identity_db teacher_signup) = Inr registered_db \<and>
   unique_keys registered_db \<and>
   length (filter (\<lambda>p. user_id p = u_id teacher_signup) (profiles registered_db)) = 1 \<and>
   handle_new_user False teacher_signup registered_db = Inr registered_db \<and>
   handle_new_user_131500 False teacher_signup registered_db = Inr registered_db"
proof -
  have h0: "unique_keys (empty_identity_db teacher_signup)"
    by (simp add: unique_keys_def empty_identity_db_def)
  have h1: "handle_new_user False teacher_signup (empty_identity_db teacher_signup) = Inr registered_db"
    by (simp add: identity_defs)
  have h2: "handle_new_user_131500 False teacher_signup (empty_identity_db teacher_signup) = Inr registered_db"
    by (simp add: identity_defs)
  have h3: "handle_new_user False teacher_signup registered_db = Inr registered_db"
    by (simp add: identity_defs)
  have h4: "handle_new_user_131500 False teacher_signup registered_db = Inr registered_db"
    by (simp add: identity_defs)
  from handle_new_user_idempotent [OF h0, of False teacher_signup registered_db False] h1
  have "unique_keys registered_db \<and>
        length (filter (\<lambda>p. user_id p = u_id teacher_signup) (profiles registered_db)) = 1"
    by blast
  with h0 h1 h2 h3 h4 show ?thesis by blast
qed

text \<open>
  Claim C9, amended. With no role in the metadata the trigger succeeds and grants
  \<open>student\<close>; with a role that is a label of the enum it succeeds and grants that role;
  with any other text the cast raises and the trigger fails: there is no fallback to the
  default role.
\<close>

theorem signup_role:
  "(raw_user_meta_data new ''role'' = None \<longrightarrow>
      (\<exists>db'. handle_new_user sf new db = Inr db' \<and>
             user_roles db' = insert_role_do_nothing (u_id new, student) (user_roles db))) \<and>
   (\<forall>r. raw_user_meta_data new ''role'' = Some (role_text r) \<longrightarrow>
      (\<exists>db'. handle_new_user sf new db = Inr db' \<and>
             user_roles db' = insert_role_do_nothing (u_id new, r) (user_roles db))) \<and>
   (\<forall>t. raw_user_meta_data new ''role'' = Some t \<and> (\<forall>r. t \<noteq> role_text r) \<longrightarrow>
      handle_new_user sf new db = Inl (Invalid_enum_input t))"
proof (intro conjI allI impI)
  assume "raw_user_meta_data new ''role'' = None"
  then show "\<exists>db'. handle_new_user sf new db = Inr db' \<and>
             user_roles db' = insert_role_do_nothing (u_id new, student) (user_roles db)"
    by (cases sf) (simp_all add: handle_new_user_def Let_def to_app_role_def)
next
  fix r assume "raw_user_meta_data new ''role'' = Some (role_text r)"
  moreover have "to_app_role (role_text r) = Some r" by (simp add: to_app_role_iff)
  ultimately show "\<exists>db'. handle_new_user sf new db = Inr db' \<and>
             user_roles db' = insert_role_do_nothing (u_id new, r) (user_roles db)"
    by (cases sf) (simp_all add: handle_new_user_def Let_def)
next
  fix t assume a: "raw_user_meta_data new ''role'' = Some t \<and> (\<forall>r. t \<noteq> role_text r)"
  then have "to_app_role t = None"
    using to_app_role_iff [of t] by (cases "to_app_role t") auto
  with a show "handle_new_user sf new db = Inl (Invalid_enum_input t)"
    by (simp add: handle_new_user_def Let_def)
qed

text \<open>A sign-up with no role, one as teacher, one with the role \<open>superuser\<close>.\<close>

theorem signup_role_witness:
  "raw_user_meta_data plain_signup ''role'' = None \<and>
   map_sum id user_roles (handle_new_user False plain_signup (empty_identity_db plain_signup))
     = Inr [(''u3'', student)] \<and>
   raw_user_meta_data teacher_signup ''role'' = Some (role_text teacher) \<and>
   map_sum id user_roles (handle_new_user False teacher_signup (empty_identity_db teacher_signup))
     = Inr [(''u1'', teacher)] \<and>
   raw_user_meta_data malformed_signup ''role'' = Some ''superuser'' \<and>
   ''superuser'' \<noteq> role_text student \<and> ''superuser'' \<noteq> role_text teacher \<and>
   ''superuser'' \<noteq> role_text admin \<and>
   handle_new_user False malformed_signup (empty_identity_db malformed_signup)
     = Inl (Invalid_enum_input ''superuser'')"
proof -
  have a: "raw_user_meta_data plain_signup ''role'' = None"
    by (simp add: plain_signup_def signup_def)
  have b: "raw_user_meta_data teacher_signup ''role'' = Some (role_text teacher)"
    by (simp add: teacher_signup_def signup_def)
  have c: "raw_user_meta_data malformed_signup ''role'' = Some ''superuser'' \<and>
           (\<forall>r. ''superuser'' \<noteq> role_text r)"
  proof -
    have "''superuser'' \<noteq> role_text r" for r by (cases r) simp_all
    then show ?thesis by (simp add: malformed_signup_def signup_def)
  qed
  have d: "''superuser'' \<noteq> role_text student \<and> ''superuser'' \<noteq> role_text teacher \<and>
           ''superuser'' \<noteq> role_text admin" by simp
  from signup_role [of plain_signup False "empty_identity_db plain_signup"] a
  obtain d1 where "handle_new_user False plain_signup (empty_identity_db plain_signup) = Inr d1"
    and "user_roles d1 = insert_role_do_nothing (u_id plain_signup, student)
                           (user_roles (empty_identity_db plain_signup))"
    by blast
  then have 1: "map_sum id user_roles
      (handle_new_user False plain_signup (empty_identity_db plain_signup)) = Inr [(''u3'', student)]"
    by (simp add: insert_role_do_nothing_def empty_identity_db_def plain_signup_def signup_def)
  from signup_role [of teacher_signup False "empty_identity_db teacher_signup"] b
  obtain d2 where "handle_new_user False teacher_signup (empty_identity_db teacher_signup) = Inr d2"
    and "user_roles d2 = insert_role_do_nothing (u_id teacher_signup, teacher)
                           (user_roles (empty_identity_db teacher_signup))"
    by blast
  then have 2: "map_sum id user_roles
      (handle_new_user False teacher_signup (empty_identity_db teacher_signup)) = Inr [(''u1'', teacher)]"
    by (simp add: insert_role_do_nothing_def empty_identity_db_def teacher_signup_def signup_def)
  from signup_role [of malformed_signup False "empty_identity_db malformed_signup"] c
  have 3: "handle_new_user False malformed_signup (empty_identity_db malformed_signup)
     = Inl (Invalid_enum_input ''superuser'')"
    by blast
  from a b c d 1 2 3 show ?thesis by blast
qed

text \<open>The malformed role fails the account creation in every version of the
  function.\<close>

theorem malformed_role_counterexample:
  "handle_new_user False malformed_signup (empty_identity_db malformed_signup)
     = Inl (Invalid_enum_input ''superuser'') \<and>
   handle_new_user_131500 False malformed_signup (empty_identity_db malformed_signup)
     = Inl (Invalid_enum_input ''superuser'') \<and>
   handle_new_user_131000 False malformed_signup (empty_identity_db malformed_signup)
     = Inl (Invalid_enum_input ''superuser'') \<and>
   handle_new_user_initial malformed_signup (empty_identity_db malformed_signup)
     = Inl (Invalid_enum_input ''superuser'')"
  by (simp add: identity_defs malformed_signup_def)

text \<open>The first of these versions, superseded by the later migrations, inserts the
  profile without a conflict clause: its second run for a user is a unique violation.\<close>

lemma handle_new_user_initial_twice:
  "handle_new_user_initial teacher_signup (empty_identity_db teacher_signup) =
     Inr (registered_db\<lparr>auth_users := [teacher_signup]\<rparr>) \<and>
   handle_new_user_initial teacher_signup (registered_db\<lparr>auth_users := [teacher_signup]\<rparr>) =
     Inl (Unique_violation ''u1'')"
  by (simp add: identity_defs)

end
